theory Spec2Isabelle
  imports Complex_Main "HOL-Library.Word"
begin

section \<open>Python values, exceptions and text\<close>

text \<open>
  The script \<^verbatim>\<open>crypto_tracker.py\<close> is a Streamlit page: every run executes the file
  from top to bottom. The model passes the effects of a run explicitly: the elements it
  shows, the HTTP requests it sends, and the cache it leaves behind. An exception that the
  script does not catch ends the run; it is the \<open>Inl\<close> branch of a sum.
\<close>

datatype exn = ConnectionError | JSONDecodeError | TypeError | KeyError

text \<open>
  A Python float: a finite double other than negative zero, given by the real number it
  denotes (positive zero is \<open>Finite 0\<close>), negative zero, the two infinities, or NaN.
\<close>

datatype pyfloat = Finite real | NegZero | PosInf | NegInf | NaN

text \<open>
  The value of a numeric field, in the payload and in a table cell: \<^verbatim>\<open>None\<close> (JSON
  null), an integer, or a float. Integers are taken in the int64 range, the range pandas
  keeps in an integer column; larger integers, and strings and booleans in numeric fields,
  are outside the model.
\<close>

datatype cell = CNone | CInt "64 word" | CFloat pyfloat

definition digit_char :: "nat \<Rightarrow> char" where
  "digit_char d = ''0123456789'' ! (d mod 10)"

fun show_nat :: "nat \<Rightarrow> string" where
  "show_nat n = (if n < 10 then [digit_char n] else show_nat (n div 10) @ [digit_char (n mod 10)])"

declare show_nat.simps [simp del]

definition show_int :: "int \<Rightarrow> string" where
  "show_int i = (if i < 0 then CHR ''-'' # show_nat (nat (- i)) else show_nat (nat i))"

text \<open>\<^verbatim>\<open>sep.join(xs)\<close>\<close>

fun join :: "string \<Rightarrow> string list \<Rightarrow> string" where
  "join sep [] = []"
| "join sep [x] = x"
| "join sep (x # y # ys) = x @ sep @ join sep (y # ys)"

section \<open>Fetch client\<close>

datatype param = PStr string | PInt int | PBool bool

record request =
  url :: string
  params :: "(string \<times> param) list"

text \<open>
  What \<^verbatim>\<open>requests.get\<close> hands back: a response with its status code and the outcome of
  \<^verbatim>\<open>response.json()\<close> (which raises on a body that is not JSON), or an exception when
  the transport fails. The upstream service is a parameter of every function that fetches.
\<close>

record 'a response =
  status_code :: int
  json :: "exn + 'a"

type_synonym 'a upstream = "request \<Rightarrow> exn + 'a response"

record quote =
  q_id :: string
  q_name :: string
  q_symbol :: string
  q_image :: string
  q_current_price :: cell
  q_price_change_percentage_24h :: cell
  q_price_change_percentage_7d_in_currency :: cell
  q_price_change_percentage_30d_in_currency :: cell
  q_market_cap :: cell
  q_total_volume :: cell

text \<open>
  The market-chart payload is a JSON object whose values are lists of
  (timestamp, price) pairs; an association list keeps the keys.
\<close>

type_synonym point = "real \<times> real"
type_synonym hist = "(string \<times> point list) list"

datatype display_row = DisplayRow
  (r_id: string) (r_name: string) (r_symbol: string)
  (r_price: string) (r_change_24h: cell) (r_change_7d: cell) (r_change_30d: cell)
  (r_market_cap: string) (r_volume: string)
  (r_style_24h: string) (r_style_7d: string) (r_style_30d: string)

datatype ui_event =
    StError string
  | StWarning string
  | StSubheader string
  | StMarkdown string
  | StDataframe "display_row list"
  | StTabs "string list"
  | StImage string
  | StMetric string string string
  | StBarChart "cell list"
  | StPriceChart string "point list"

text \<open>
  The result of an effectful call: its value or the exception it raised, the elements it
  showed, and the requests it sent, in order.
\<close>

type_synonym 'a eff = "(exn + 'a) \<times> ui_event list \<times> request list"

definition crypto_request :: "string list \<Rightarrow> request" where
  "crypto_request crypto_ids =
     \<lparr> url = ''https://api.coingecko.com/api/v3/coins/markets'',
       params = [(''vs_currency'', PStr ''usd''),
                 (''ids'', PStr (join '','' crypto_ids)),
                 (''order'', PStr ''market_cap_desc''),
                 (''per_page'', PInt 100),
                 (''page'', PInt 1),
                 (''sparkline'', PBool False),
                 (''price_change_percentage'', PStr ''1h,24h,7d,30d'')] \<rparr>"

text \<open>The body of \<^verbatim>\<open>get_crypto_data\<close>, without its decorator.\<close>

definition get_crypto_data_body :: "quote list upstream \<Rightarrow> string list \<Rightarrow> quote list eff" where
  "get_crypto_data_body net crypto_ids =
     (let rq = crypto_request crypto_ids in
      case net rq of
        Inl e \<Rightarrow> (Inl e, [], [rq])
      | Inr r \<Rightarrow>
          if status_code r = 200 then (json r, [], [rq])
          else (Inr [], [StError (''Error fetching data: '' @ show_int (status_code r))], [rq]))"

definition historical_request :: "string \<Rightarrow> int \<Rightarrow> request" where
  "historical_request crypto_id days =
     \<lparr> url = ''https://api.coingecko.com/api/v3/coins/'' @ crypto_id @ ''/market_chart'',
       params = [(''vs_currency'', PStr ''usd''),
                 (''days'', PInt days),
                 (''interval'', PStr (if days > 1 then ''daily'' else ''hourly''))] \<rparr>"

text \<open>The body of \<^verbatim>\<open>get_historical_data\<close>, without its decorator.\<close>

definition get_historical_data_body :: "hist upstream \<Rightarrow> string \<times> int \<Rightarrow> hist eff" where
  "get_historical_data_body net key =
     (let rq = historical_request (fst key) (snd key) in
      case net rq of
        Inl e \<Rightarrow> (Inl e, [], [rq])
      | Inr r \<Rightarrow>
          if status_code r = 200 then (json r, [], [rq])
          else (Inr [(''prices'', [])],
                [StError (''Error fetching historical data: '' @ show_int (status_code r))], [rq]))"

text \<open>The value a request sends under a parameter name.\<close>

definition param_of :: "request \<Rightarrow> string \<Rightarrow> param option" where
  "param_of rq k = map_of (params rq) k"

section \<open>TTL cache\<close>

text \<open>
  A cache entry is a value with the time it was created; the time is in seconds.
\<close>

type_synonym ('k, 'v) cache = "'k \<Rightarrow> ('v \<times> real) option"

definition entry_valid :: "real \<Rightarrow> real \<Rightarrow> real \<Rightarrow> bool" where
  "entry_valid ttl created_at now = (now - created_at < ttl)"

text \<open>
  Modelled from the spec: the memoiser behind the decorator \<^verbatim>\<open>@st.cache_data(ttl=...)\<close>
  is framework code and is not under src/. The spec gives it as \<open>getOrFetch(key, ttl, fetchFn)\<close>:
  an entry is valid iff \<open>now - created_at < ttl\<close>; a valid entry is returned without
  invoking \<open>fetchFn\<close>; otherwise \<open>fetchFn\<close> is called, a value it returns is stored with
  \<open>created_at = now\<close>, and a failure is returned without touching the cache. The decorator
  sees only what the decorated Python function does: a returned value is a success for it,
  a raised exception is the failure. A hit shows no element and sends no request; an entry
  that has expired stays in the map until a later fetch overwrites it.
\<close>

definition fetch_and_store ::
  "('k \<Rightarrow> 'v eff) \<Rightarrow> ('k, 'v) cache \<Rightarrow> real \<Rightarrow> 'k \<Rightarrow> 'v eff \<times> ('k, 'v) cache" where
  "fetch_and_store fetchFn c now key =
     (case fetchFn key of
        (Inl e, shown, sent) \<Rightarrow> ((Inl e, shown, sent), c)
      | (Inr v, shown, sent) \<Rightarrow> ((Inr v, shown, sent), c(key \<mapsto> (v, now))))"

definition cache_data ::
  "real \<Rightarrow> ('k \<Rightarrow> 'v eff) \<Rightarrow> ('k, 'v) cache \<Rightarrow> real \<Rightarrow> 'k \<Rightarrow> 'v eff \<times> ('k, 'v) cache" where
  "cache_data ttl fetchFn c now key =
     (case c key of
        None \<Rightarrow> fetch_and_store fetchFn c now key
      | Some (v, created_at) \<Rightarrow>
          if entry_valid ttl created_at now then ((Inr v, [], []), c)
          else fetch_and_store fetchFn c now key)"

text \<open>\<^verbatim>\<open>@st.cache_data(ttl=300)\<close> on \<^verbatim>\<open>get_crypto_data\<close>.\<close>

definition get_crypto_data ::
  "quote list upstream \<Rightarrow> (string list, quote list) cache \<Rightarrow> real \<Rightarrow> string list
     \<Rightarrow> quote list eff \<times> (string list, quote list) cache" where
  "get_crypto_data net = cache_data 300 (get_crypto_data_body net)"

text \<open>\<^verbatim>\<open>@st.cache_data(ttl=3600)\<close> on \<^verbatim>\<open>get_historical_data\<close>; the key is the
  pair of arguments.\<close>

definition get_historical_data ::
  "hist upstream \<Rightarrow> (string \<times> int, hist) cache \<Rightarrow> real \<Rightarrow> string \<times> int
     \<Rightarrow> hist eff \<times> (string \<times> int, hist) cache" where
  "get_historical_data net = cache_data 3600 (get_historical_data_body net)"

section \<open>View model\<close>

text \<open>
  Python's fixed-point formatting of a float rounds the exact value to the requested
  number of decimals, ties to even.
\<close>

definition round_half_even :: "real \<Rightarrow> int" where
  "round_half_even x =
     (let f = \<lfloor>x\<rfloor>; r = x - of_int f in
      if r < 1 / 2 then f else if r > 1 / 2 then f + 1 else if even f then f else f + 1)"

text \<open>The \<open>d\<close> low decimal digits of \<open>n\<close>, zero-padded.\<close>

fun pad_digits :: "nat \<Rightarrow> nat \<Rightarrow> string" where
  "pad_digits 0 n = []"
| "pad_digits (Suc d) n = pad_digits d (n div 10) @ [digit_char (n mod 10)]"

text \<open>The thousands separator of the \<^verbatim>\<open>,\<close> format option.\<close>

fun group3 :: "string \<Rightarrow> string" where
  "group3 ds =
     (if length ds \<le> 3 then ds
      else group3 (take (length ds - 3) ds) @ '','' @ drop (length ds - 3) ds)"

declare group3.simps [simp del]

text \<open>
  \<^verbatim>\<open>format(x, ',.df')\<close> when \<open>grouped\<close>, \<^verbatim>\<open>format(x, '.df')\<close> otherwise, for a
  finite \<open>x\<close>.
\<close>

definition format_fixed :: "bool \<Rightarrow> nat \<Rightarrow> real \<Rightarrow> string" where
  "format_fixed grouped d x =
     (let n = nat (round_half_even (\<bar>x\<bar> * 10 ^ d));
          whole = show_nat (n div 10 ^ d)
      in (if x < 0 then ''-'' else [])
         @ (if grouped then group3 whole else whole)
         @ (if d = 0 then [] else CHR ''.'' # pad_digits d (n mod 10 ^ d)))"

text \<open>The same on any float.\<close>

definition format_float :: "bool \<Rightarrow> nat \<Rightarrow> pyfloat \<Rightarrow> string" where
  "format_float grouped d f =
     (case f of
        Finite x \<Rightarrow> format_fixed grouped d x
      | NegZero \<Rightarrow> CHR ''-'' # format_fixed grouped d 0
      | PosInf \<Rightarrow> ''inf''
      | NegInf \<Rightarrow> ''-inf''
      | NaN \<Rightarrow> ''nan'')"

text \<open>
  The conversion of an integer to a float rounds it to 53 significant bits, ties to even:
  \<open>round53\<close> on the magnitude. Integers below \<open>2 ^ 53\<close> are kept exactly.
\<close>

fun bit_length :: "nat \<Rightarrow> nat" where
  "bit_length n = (if n = 0 then 0 else Suc (bit_length (n div 2)))"

declare bit_length.simps [simp del]

definition round53 :: "nat \<Rightarrow> nat" where
  "round53 n =
     (let k = bit_length n - 53;
          q = n div 2 ^ k;
          r = n mod 2 ^ k;
          m = (if 2 * r < 2 ^ k then q else if 2 * r > 2 ^ k then q + 1
               else if even q then q else q + 1)
      in m * 2 ^ k)"

definition float_of_int :: "int \<Rightarrow> real" where
  "float_of_int i = (if i < 0 then - real (round53 (nat (- i))) else real (round53 (nat i)))"

text \<open>\<^verbatim>\<open>float(val)\<close>\<close>

definition py_float :: "cell \<Rightarrow> exn + pyfloat" where
  "py_float val =
     (case val of
        CNone \<Rightarrow> Inl TypeError
      | CInt w \<Rightarrow> Inr (Finite (float_of_int (sint w)))
      | CFloat f \<Rightarrow> Inr f)"

text \<open>
  A float format applied to a value: \<^verbatim>\<open>None\<close> raises, an integer is converted to a
  float first.
\<close>

definition format_cell :: "bool \<Rightarrow> nat \<Rightarrow> cell \<Rightarrow> exn + string" where
  "format_cell grouped d c =
     (case py_float c of Inl e \<Rightarrow> Inl e | Inr f \<Rightarrow> Inr (format_float grouped d f))"

text \<open>\<^verbatim>\<open>val >= 0\<close> on a float: negative zero equals zero, every comparison with NaN is
  false.\<close>

definition ge_zero :: "pyfloat \<Rightarrow> bool" where
  "ge_zero v =
     (case v of
        Finite x \<Rightarrow> x \<ge> 0
      | NegZero \<Rightarrow> True
      | PosInf \<Rightarrow> True
      | NegInf \<Rightarrow> False
      | NaN \<Rightarrow> False)"

text \<open>The bare \<^verbatim>\<open>except\<close> turns every failure of the conversion into the empty style.\<close>

definition color_percent :: "cell \<Rightarrow> string" where
  "color_percent val =
     (case py_float val of
        Inl e \<Rightarrow> []
      | Inr v \<Rightarrow> ''color: '' @ (if ge_zero v then ''green'' else ''red''))"

text \<open>\<^verbatim>\<open>lambda x: f"${x:,.2f}"\<close> and \<^verbatim>\<open>lambda x: f"${x:,.0f}"\<close>\<close>

definition currency :: "nat \<Rightarrow> cell \<Rightarrow> exn + string" where
  "currency d c = (case format_cell True d c of Inl e \<Rightarrow> Inl e | Inr s \<Rightarrow> Inr (CHR ''$'' # s))"

text \<open>
  \<^verbatim>\<open>pd.DataFrame(crypto_data)\<close> is pandas code, not under src/. What the script depends
  on is how pandas types a column of the payload: a column of \<^verbatim>\<open>None\<close> only keeps its
  values as objects; a column of integers only is an integer column; any other column is a
  float column, in which every integer is converted to a float and every \<^verbatim>\<open>None\<close>
  becomes NaN.
\<close>

definition to_float64 :: "cell \<Rightarrow> cell" where
  "to_float64 c =
     (case c of
        CNone \<Rightarrow> CFloat NaN
      | CInt w \<Rightarrow> CFloat (Finite (float_of_int (sint w)))
      | CFloat f \<Rightarrow> CFloat f)"

definition is_int_cell :: "cell \<Rightarrow> bool" where
  "is_int_cell c = (case c of CInt w \<Rightarrow> True | _ \<Rightarrow> False)"

definition pd_column :: "cell list \<Rightarrow> cell list" where
  "pd_column vs =
     (if list_all (\<lambda>v. v = CNone) vs then vs
      else if list_all is_int_cell vs then vs
      else map to_float64 vs)"

text \<open>\<^verbatim>\<open>df[col].apply(f)\<close>: the function on every cell of the column, in order.\<close>

fun apply_col :: "(cell \<Rightarrow> exn + string) \<Rightarrow> cell list \<Rightarrow> exn + string list" where
  "apply_col f [] = Inr []"
| "apply_col f (c # cs) =
     (case f c of Inl e \<Rightarrow> Inl e | Inr s \<Rightarrow>
     (case apply_col f cs of Inl e \<Rightarrow> Inl e | Inr ss \<Rightarrow> Inr (s # ss)))"

text \<open>
  The table: the DataFrame of the payload with its nine columns selected, the three
  currency columns formatted, and the three percentage columns styled by
  \<^verbatim>\<open>color_percent\<close>. The payload itself keeps its values.
\<close>

definition build_table :: "quote list \<Rightarrow> exn + display_row list" where
  "build_table crypto_data =
     (let price = pd_column (map q_current_price crypto_data);
          c24 = pd_column (map q_price_change_percentage_24h crypto_data);
          c7 = pd_column (map q_price_change_percentage_7d_in_currency crypto_data);
          c30 = pd_column (map q_price_change_percentage_30d_in_currency crypto_data);
          cap = pd_column (map q_market_cap crypto_data);
          vol = pd_column (map q_total_volume crypto_data)
      in
      (case apply_col (currency 2) price of Inl e \<Rightarrow> Inl e | Inr prices \<Rightarrow>
      (case apply_col (currency 0) cap of Inl e \<Rightarrow> Inl e | Inr caps \<Rightarrow>
      (case apply_col (currency 0) vol of Inl e \<Rightarrow> Inl e | Inr vols \<Rightarrow>
         Inr (map (\<lambda>i. DisplayRow (q_id (crypto_data ! i)) (q_name (crypto_data ! i))
                          (q_symbol (crypto_data ! i)) (prices ! i)
                          (c24 ! i) (c7 ! i) (c30 ! i) (caps ! i) (vols ! i)
                          (color_percent (c24 ! i)) (color_percent (c7 ! i))
                          (color_percent (c30 ! i)))
                  [0 ..< length crypto_data])))))"





section \<open>The page script\<close>

definition available_cryptos :: "(string \<times> string) list" where
  "available_cryptos =
     [(''bitcoin'', ''Bitcoin (BTC)''),
      (''ethereum'', ''Ethereum (ETH)''),
      (''binancecoin'', ''Binance Coin (BNB)''),
      (''ripple'', ''XRP (XRP)''),
      (''cardano'', ''Cardano (ADA)''),
      (''solana'', ''Solana (SOL)''),
      (''polkadot'', ''Polkadot (DOT)''),
      (''dogecoin'', ''Dogecoin (DOGE)''),
      (''avalanche-2'', ''Avalanche (AVAX)''),
      (''chainlink'', ''Chainlink (LINK)'')]"

text \<open>
  The values of the sidebar widgets in one run: the multiselect, the interval slider, the
  auto-refresh checkbox and whether the button \<^verbatim>\<open>Refresh Data Now\<close> was pressed.
\<close>

record widgets =
  selected_cryptos :: "string list"
  refresh_interval :: int
  auto_refresh :: bool
  refresh_pressed :: bool

text \<open>
  How a run ends: \<^verbatim>\<open>st.stop()\<close>, the end of the file, \<^verbatim>\<open>st.experimental_rerun()\<close>
  after sleeping the given number of seconds, or an exception nobody caught.
\<close>

datatype outcome = Stopped | Finished | Rerun int | Aborted exn

record run_result =
  outcome :: outcome
  elements :: "ui_event list"
  requests :: "request list"
  quotes_cache :: "(string list, quote list) cache"
  hist_cache :: "(string \<times> int, hist) cache"

text \<open>\<^verbatim>\<open>[available_cryptos[crypto] for crypto in selected_cryptos]\<close>\<close>

fun tab_labels :: "string list \<Rightarrow> exn + string list" where
  "tab_labels [] = Inr []"
| "tab_labels (c # cs) =
     (case map_of available_cryptos c of None \<Rightarrow> Inl KeyError | Some l \<Rightarrow>
     (case tab_labels cs of Inl e \<Rightarrow> Inl e | Inr ls \<Rightarrow> Inr (l # ls)))"

text \<open>\<^verbatim>\<open>s.upper()\<close> on ASCII text.\<close>

definition upper :: "string \<Rightarrow> string" where
  "upper s = map (\<lambda>c. let n = (of_char c :: nat) in
                        if 97 \<le> n \<and> n \<le> 122 then char_of (n - 32) else c) s"

text \<open>
  The left column of a tab: image, metric and the returns bar chart. Whether
  \<^verbatim>\<open>st.image\<close> can load what the payload names is decided outside the script: the
  parameter \<open>st_image\<close> gives the exception it raises, if any. The figure of the bar chart,
  with its colour range \<^verbatim>\<open>max(abs(...))\<close>, is computed by pandas and plotly from the
  three return values; that computation is the parameter \<open>px_bar\<close>.
\<close>

definition returns_column ::
  "(string \<Rightarrow> exn option) \<Rightarrow> (cell list \<Rightarrow> exn + ui_event) \<Rightarrow> quote
     \<Rightarrow> (exn + unit) \<times> ui_event list" where
  "returns_column st_image px_bar crypto =
     (case st_image (q_image crypto) of
        Some e \<Rightarrow> (Inl e, [])
      | None \<Rightarrow>
     (case format_cell True 2 (q_current_price crypto) of
        Inl e \<Rightarrow> (Inl e, [StImage (q_image crypto)])
      | Inr price \<Rightarrow>
     (case format_cell False 2 (q_price_change_percentage_24h crypto) of
        Inl e \<Rightarrow> (Inl e, [StImage (q_image crypto)])
      | Inr delta \<Rightarrow>
     (case px_bar [q_price_change_percentage_24h crypto,
                   q_price_change_percentage_7d_in_currency crypto,
                   q_price_change_percentage_30d_in_currency crypto] of
        Inl e \<Rightarrow>
          (Inl e, [StImage (q_image crypto),
                   StMetric (q_name crypto @ '' ('' @ upper (q_symbol crypto) @ '')'')
                            (CHR ''$'' # price) (delta @ ''%''),
                   StMarkdown ''### Returns''])
      | Inr fig \<Rightarrow>
          (Inr (), [StImage (q_image crypto),
                    StMetric (q_name crypto @ '' ('' @ upper (q_symbol crypto) @ '')'')
                             (CHR ''$'' # price) (delta @ ''%''),
                    StMarkdown ''### Returns'', fig])))))"

text \<open>\<^verbatim>\<open>hist_data and 'prices' in hist_data\<close>: a non-empty dict that has the key.\<close>

definition history_guard :: "hist \<Rightarrow> bool" where
  "history_guard hist_data = (hist_data \<noteq> [] \<and> ''prices'' \<in> set (map fst hist_data))"

text \<open>\<^verbatim>\<open>hist_data['prices']\<close>, read under the guard.\<close>

definition prices_of :: "hist \<Rightarrow> point list" where
  "prices_of hist_data = (case map_of hist_data ''prices'' of None \<Rightarrow> [] | Some ps \<Rightarrow> ps)"

definition could_not_load :: ui_event where
  "could_not_load = StError ''Could not load historical data for this cryptocurrency.''"

text \<open>
  The right column of a tab: the 30-day price chart of one asset. The chart is given by its
  title and its points; the conversion of the timestamps and the layout are plotly's.
\<close>

definition history_column ::
  "hist upstream \<Rightarrow> (string \<times> int, hist) cache \<Rightarrow> real \<Rightarrow> quote \<Rightarrow> string
     \<Rightarrow> unit eff \<times> (string \<times> int, hist) cache" where
  "history_column hnet hc t crypto crypto_id =
     (case get_historical_data hnet hc t (crypto_id, 30) of
        ((Inl e, shown, sent), hc') \<Rightarrow> ((Inl e, shown, sent), hc')
      | ((Inr hist_data, shown, sent), hc') \<Rightarrow>
          if history_guard hist_data
          then ((Inr (), shown @ [StPriceChart (q_name crypto @ '' Price (Last 30 Days)'')
                                     (prices_of hist_data)], sent), hc')
          else ((Inr (), shown @ [could_not_load], sent), hc'))"

text \<open>
  The body of the loop over the selected assets: the quote of the asset is looked up in
  the payload, and an asset without a quote gets an empty tab.
\<close>

definition detail_tab ::
  "hist upstream \<Rightarrow> (string \<Rightarrow> exn option) \<Rightarrow> (cell list \<Rightarrow> exn + ui_event) \<Rightarrow> real
     \<Rightarrow> quote list
     \<Rightarrow> (string \<times> int, hist) cache \<Rightarrow> string \<Rightarrow> unit eff \<times> (string \<times> int, hist) cache" where
  "detail_tab hnet st_image px_bar t crypto_data hc crypto_id =
     (case find (\<lambda>c. q_id c = crypto_id) crypto_data of
        None \<Rightarrow> ((Inr (), [], []), hc)
      | Some crypto \<Rightarrow>
          (case returns_column st_image px_bar crypto of
             (Inl e, shown) \<Rightarrow> ((Inl e, shown, []), hc)
           | (Inr u, shown) \<Rightarrow>
               (case history_column hnet hc t crypto crypto_id of
                  ((r, shown', sent), hc') \<Rightarrow> ((r, shown @ shown', sent), hc'))))"

fun detail_tabs ::
  "hist upstream \<Rightarrow> (string \<Rightarrow> exn option) \<Rightarrow> (cell list \<Rightarrow> exn + ui_event) \<Rightarrow> real
     \<Rightarrow> quote list
     \<Rightarrow> (string \<times> int, hist) cache \<Rightarrow> string list \<Rightarrow> unit eff \<times> (string \<times> int, hist) cache" where
  "detail_tabs hnet st_image px_bar t crypto_data hc [] = ((Inr (), [], []), hc)"
| "detail_tabs hnet st_image px_bar t crypto_data hc (crypto_id # rest) =
     (case detail_tab hnet st_image px_bar t crypto_data hc crypto_id of
        ((Inl e, shown, sent), hc') \<Rightarrow> ((Inl e, shown, sent), hc')
      | ((Inr u, shown, sent), hc') \<Rightarrow>
          (case detail_tabs hnet st_image px_bar t crypto_data hc' rest of
             ((r, shown', sent'), hc'') \<Rightarrow> ((r, shown @ shown', sent @ sent'), hc'')))"

text \<open>The block under \<^verbatim>\<open>if crypto_data:\<close>: the table, then the tabs.\<close>

definition show_data ::
  "hist upstream \<Rightarrow> (string \<Rightarrow> exn option) \<Rightarrow> (cell list \<Rightarrow> exn + ui_event) \<Rightarrow> real
     \<Rightarrow> string list \<Rightarrow> quote list
     \<Rightarrow> (string \<times> int, hist) cache \<Rightarrow> unit eff \<times> (string \<times> int, hist) cache" where
  "show_data hnet st_image px_bar t selected crypto_data hc =
     (case build_table crypto_data of
        Inl e \<Rightarrow> ((Inl e, [], []), hc)
      | Inr rows \<Rightarrow>
          (case tab_labels selected of
             Inl e \<Rightarrow>
               ((Inl e, [StSubheader ''Current Prices and Returns'', StDataframe rows,
                         StSubheader ''Detailed Analysis''], []), hc)
           | Inr labels \<Rightarrow>
               (case detail_tabs hnet st_image px_bar t crypto_data hc selected of
                  ((r, shown, sent), hc') \<Rightarrow>
                    ((r, [StSubheader ''Current Prices and Returns'', StDataframe rows,
                          StSubheader ''Detailed Analysis'', StTabs labels] @ shown, sent), hc'))))"

text \<open>
  The end of the file: with auto-refresh on, a caption, \<^verbatim>\<open>time.sleep(refresh_interval)\<close>
  and a rerun. \<open>clock\<close> is the wall-clock text of the caption.
\<close>

definition auto_refresh_step :: "string \<Rightarrow> widgets \<Rightarrow> outcome \<times> ui_event list" where
  "auto_refresh_step clock w =
     (if auto_refresh w
      then (Rerun (refresh_interval w),
            [StMarkdown (''<small>Data will refresh every '' @ show_int (refresh_interval w)
                         @ '' seconds. Last updated: '' @ clock @ ''</small>'')])
      else (Finished, []))"

text \<open>
  One run of the script, from the refresh button on. The page title and caption above it
  and the sidebar widgets themselves are not listed among the elements. The clock is read
  once: every cache lookup of a run sees the same time \<open>t\<close>.
\<close>

definition run ::
  "quote list upstream \<Rightarrow> hist upstream \<Rightarrow> (string \<Rightarrow> exn option)
     \<Rightarrow> (cell list \<Rightarrow> exn + ui_event) \<Rightarrow> real \<Rightarrow> string
     \<Rightarrow> (string list, quote list) cache \<Rightarrow> (string \<times> int, hist) cache \<Rightarrow> widgets
     \<Rightarrow> run_result" where
  "run net hnet st_image px_bar t clock qc hc w =
     (if refresh_pressed w then
        \<lparr> outcome = Rerun 0, elements = [], requests = [], quotes_cache = qc, hist_cache = hc \<rparr>
      else if selected_cryptos w = [] then
        \<lparr> outcome = Stopped,
          elements = [StWarning ''Please select at least one cryptocurrency from the sidebar.''],
          requests = [], quotes_cache = qc, hist_cache = hc \<rparr>
      else
        (case get_crypto_data net qc t (selected_cryptos w) of
           ((Inl e, shown, sent), qc') \<Rightarrow>
             \<lparr> outcome = Aborted e, elements = shown, requests = sent,
               quotes_cache = qc', hist_cache = hc \<rparr>
         | ((Inr crypto_data, shown, sent), qc') \<Rightarrow>
             if crypto_data \<noteq> [] then
               (case show_data hnet st_image px_bar t (selected_cryptos w) crypto_data hc of
                  ((Inl e, shown', sent'), hc') \<Rightarrow>
                    \<lparr> outcome = Aborted e, elements = shown @ shown', requests = sent @ sent',
                      quotes_cache = qc', hist_cache = hc' \<rparr>
                | ((Inr u, shown', sent'), hc') \<Rightarrow>
                    \<lparr> outcome = fst (auto_refresh_step clock w),
                      elements = shown @ shown' @ snd (auto_refresh_step clock w),
                      requests = sent @ sent',
                      quotes_cache = qc', hist_cache = hc' \<rparr>)
             else
               \<lparr> outcome = fst (auto_refresh_step clock w),
                 elements = shown @ snd (auto_refresh_step clock w),
                 requests = sent, quotes_cache = qc', hist_cache = hc \<rparr>))"



section \<open>Concrete inputs\<close>

definition btc_quote :: quote where
  "btc_quote =
     \<lparr> q_id = ''bitcoin'', q_name = ''Bitcoin'', q_symbol = ''btc'',
       q_image = ''https://assets.coingecko.com/coins/images/1/large/bitcoin.png'',
       q_current_price = CFloat (Finite 50000),
       q_price_change_percentage_24h = CFloat (Finite (5 / 2)),
       q_price_change_percentage_7d_in_currency = CFloat (Finite (- 1)),
       q_price_change_percentage_30d_in_currency = CNone,
       q_market_cap = CInt 1234567890,
       q_total_volume = CInt 987654 \<rparr>"

text \<open>An upstream that answers every request with a status and no JSON body.\<close>

definition upstream_status :: "int \<Rightarrow> 'a upstream" where
  "upstream_status s = (\<lambda>rq. Inr \<lparr> status_code = s, json = Inl JSONDecodeError \<rparr>)"

text \<open>An upstream that cannot be reached.\<close>

definition upstream_down :: "'a upstream" where
  "upstream_down = (\<lambda>rq. Inl ConnectionError)"

text \<open>A quotes cache holding the Bitcoin quote, written at time 0.\<close>

definition cache_btc :: "(string list, quote list) cache" where
  "cache_btc = [[''bitcoin''] \<mapsto> ([btc_quote], 0)]"

text \<open>An upstream that answers every request with status 200 and the given payload.\<close>

definition upstream_ok :: "'a \<Rightarrow> 'a upstream" where
  "upstream_ok v = (\<lambda>rq. Inr \<lparr> status_code = 200, json = Inr v \<rparr>)"

text \<open>A history cache holding a two-point series for Bitcoin over 30 days, written at time 0.\<close>

definition cache_hist :: "(string \<times> int, hist) cache" where
  "cache_hist = [(''bitcoin'', 30) \<mapsto> ([(''prices'', [(0, 49000), (86400000, 50000)])], 0)]"


text \<open>Nothing selected.\<close>

definition widgets_none :: widgets where
  "widgets_none = \<lparr> selected_cryptos = [], refresh_interval = 60,
                     auto_refresh = True, refresh_pressed = False \<rparr>"


definition eth_quote :: quote where
  "eth_quote =
     \<lparr> q_id = ''ethereum'', q_name = ''Ethereum'', q_symbol = ''eth'',
       q_image = ''https://assets.coingecko.com/coins/images/279/large/ethereum.png'',
       q_current_price = CFloat (Finite (6001 / 2)),
       q_price_change_percentage_24h = CFloat (Finite (- 1 / 2)),
       q_price_change_percentage_7d_in_currency = CFloat (Finite 0),
       q_price_change_percentage_30d_in_currency = CFloat (Finite 12),
       q_market_cap = CInt 360000000000,
       q_total_volume = CInt 15000000000 \<rparr>"

text \<open>The same Bitcoin quote with a 30-day change.\<close>

definition btc_full :: quote where
  "btc_full = btc_quote \<lparr> q_price_change_percentage_30d_in_currency := CFloat (Finite 8) \<rparr>"

text \<open>Every image loads; the bar chart is drawn from the three return values.\<close>

definition image_ok :: "string \<Rightarrow> exn option" where
  "image_ok s = None"

definition bar_ok :: "cell list \<Rightarrow> exn + ui_event" where
  "bar_ok cs = Inr (StBarChart cs)"

section \<open>Fetch client: results\<close>

text \<open>
  C4. \<^verbatim>\<open>fetchHistory(id, lookbackDays)\<close> asks for daily points when
  \<open>lookbackDays > 1\<close> and for hourly points when \<open>lookbackDays \<le> 1\<close>; a lookback
  of 1 day asks for hourly points and a lookback of 30 days for daily points. The request
  is the one the call really sends, whatever the upstream answers.
\<close>

theorem granularity_rule:
  "snd (snd (get_historical_data_body net (cid, days))) = [historical_request cid days]
   \<and> (days > 1 \<longrightarrow> param_of (historical_request cid days) ''interval'' = Some (PStr ''daily''))
   \<and> (days \<le> 1 \<longrightarrow> param_of (historical_request cid days) ''interval'' = Some (PStr ''hourly''))
   \<and> param_of (historical_request cid 1) ''interval'' = Some (PStr ''hourly'')
   \<and> param_of (historical_request cid 30) ''interval'' = Some (PStr ''daily'')
   \<and> param_of (historical_request cid days) ''days'' = Some (PInt days)"
  by (simp add: get_historical_data_body_def historical_request_def param_of_def Let_def
        split: sum.splits)

theorem granularity_rule_witness:
  "param_of (historical_request ''bitcoin'' 7) ''interval'' = Some (PStr ''daily'')
   \<and> param_of (historical_request ''bitcoin'' 0) ''interval'' = Some (PStr ''hourly'')"
  using granularity_rule [of "\<lambda>_. Inl ConnectionError" "''bitcoin''" 7]
        granularity_rule [of "\<lambda>_. Inl ConnectionError" "''bitcoin''" 0]
  by simp

text \<open>
  C3 (as stated): a transport failure makes \<^verbatim>\<open>fetchQuotes\<close> return an error value and
  never raise. With the upstream unreachable, the call raises \<^verbatim>\<open>ConnectionError\<close> to
  its caller, showing nothing.
\<close>

theorem fetch_raises_counterexample:
  "fst (get_crypto_data upstream_down Map.empty 0 [''bitcoin''])
     = (Inl ConnectionError, [], [crypto_request [''bitcoin'']])"
  by (simp add: get_crypto_data_def cache_data_def fetch_and_store_def
        get_crypto_data_body_def upstream_down_def Let_def)

text \<open>
  C3 (amended). A response whose status is not 200 makes the call show an error message
  with the status code and return the empty sentinel to its caller (\<open>[]\<close> for quotes,
  \<open>{'prices': []}\<close> for history) without raising; a transport failure is raised to the
  caller.
\<close>

theorem fetch_failure_results:
  "(net (crypto_request ids) = Inr r \<and> status_code r \<noteq> 200 \<longrightarrow>
      get_crypto_data_body net ids
        = (Inr [], [StError (''Error fetching data: '' @ show_int (status_code r))],
           [crypto_request ids]))
   \<and> (hnet (historical_request cid days) = Inr hr \<and> status_code hr \<noteq> 200 \<longrightarrow>
      get_historical_data_body hnet (cid, days)
        = (Inr [(''prices'', [])],
           [StError (''Error fetching historical data: '' @ show_int (status_code hr))],
           [historical_request cid days]))
   \<and> (net (crypto_request ids) = Inl e \<longrightarrow>
      get_crypto_data_body net ids = (Inl e, [], [crypto_request ids]))
   \<and> (hnet (historical_request cid days) = Inl e' \<longrightarrow>
      get_historical_data_body hnet (cid, days) = (Inl e', [], [historical_request cid days]))"
  by (simp add: get_crypto_data_body_def get_historical_data_body_def Let_def)

theorem fetch_failure_results_witness:
  "get_crypto_data_body (upstream_status 500) [''bitcoin'']
     = (Inr [], [StError ''Error fetching data: 500''], [crypto_request [''bitcoin'']])
   \<and> get_historical_data_body (upstream_status 429) (''bitcoin'', 30)
     = (Inr [(''prices'', [])], [StError ''Error fetching historical data: 429''],
        [historical_request ''bitcoin'' 30])"
proof -
  have s500: "show_int 500 = ''500''" and s429: "show_int 429 = ''429''"
    by (simp_all add: show_int_def show_nat.simps digit_char_def)
  have a: "(upstream_status 500 :: quote list upstream) (crypto_request [''bitcoin''])
             = Inr \<lparr> status_code = 500, json = Inl JSONDecodeError \<rparr>"
    and b: "(upstream_status 429 :: hist upstream) (historical_request ''bitcoin'' 30)
             = Inr \<lparr> status_code = 429, json = Inl JSONDecodeError \<rparr>"
    by (simp_all add: upstream_status_def)
  show ?thesis
    using fetch_failure_results [of "upstream_status 500" "[''bitcoin'']"
        "\<lparr> status_code = 500, json = Inl JSONDecodeError \<rparr>"
        "upstream_status 429" "''bitcoin''" 30
        "\<lparr> status_code = 429, json = Inl JSONDecodeError \<rparr>" ConnectionError ConnectionError]
      a b s500 s429
    by simp
qed

section \<open>TTL cache: results\<close>

lemma cache_hit:
  "c key = Some (v, t0) \<Longrightarrow> t < t0 + ttl \<Longrightarrow> cache_data ttl fetchFn c t key = ((Inr v, [], []), c)"
  by (simp add: cache_data_def entry_valid_def)

lemma cache_expired:
  "c key = Some (v, t0) \<Longrightarrow> t0 + ttl \<le> t
     \<Longrightarrow> cache_data ttl fetchFn c t key = fetch_and_store fetchFn c t key"
  by (simp add: cache_data_def entry_valid_def)

lemma cache_absent:
  "c key = None \<Longrightarrow> cache_data ttl fetchFn c t key = fetch_and_store fetchFn c t key"
  by (simp add: cache_data_def)

lemma store_on_return:
  "fetchFn key = (Inr v, shown, sent)
     \<Longrightarrow> fetch_and_store fetchFn c t key = ((Inr v, shown, sent), c(key \<mapsto> (v, t)))"
  by (simp add: fetch_and_store_def)

lemma no_store_on_raise:
  "fetchFn key = (Inl e, shown, sent)
     \<Longrightarrow> fetch_and_store fetchFn c t key = ((Inl e, shown, sent), c)"
  by (simp add: fetch_and_store_def)

lemma crypto_body_sends: "snd (snd (get_crypto_data_body net ids)) = [crypto_request ids]"
  by (simp add: get_crypto_data_body_def Let_def split: sum.splits)

lemma historical_body_sends:
  "snd (snd (get_historical_data_body net key)) = [historical_request (fst key) (snd key)]"
  by (simp add: get_historical_data_body_def Let_def split: sum.splits)

lemma fetch_and_store_sends:
  "snd (snd (fst (fetch_and_store fetchFn c t key))) = snd (snd (fetchFn key))"
  by (simp add: fetch_and_store_def split: prod.splits sum.splits)

text \<open>
  C1. An entry written at time \<open>t0\<close> (by a fetch that returned) is returned by every read
  at \<open>t < t0 + ttl\<close> with no call of the fetch function: no request is sent, whatever the
  upstream would answer, and the cache is unchanged. Every read at \<open>t \<ge> t0 + ttl\<close>
  calls the fetch function again and sends its request. The quotes cache has
  \<open>ttl = 300\<close>, the historical-series cache \<open>ttl = 3600\<close>. (The bound \<open>ttl > 0\<close>
  is not needed.)
\<close>

theorem ttl_window:
  "(fetchFn key = (Inr v, shown, sent) \<longrightarrow>
      snd (fetch_and_store fetchFn c t0 key) key = Some (v, t0))
   \<and> (c key = Some (v, t0) \<and> t < t0 + ttl \<longrightarrow>
      cache_data ttl fetchFn c t key = ((Inr v, [], []), c))
   \<and> (c key = Some (v, t0) \<and> t0 + ttl \<le> t \<longrightarrow>
      cache_data ttl fetchFn c t key = fetch_and_store fetchFn c t key)
   \<and> (qc ids = Some (qs, t0) \<and> t < t0 + 300 \<longrightarrow>
      get_crypto_data net qc t ids = ((Inr qs, [], []), qc))
   \<and> (qc ids = Some (qs, t0) \<and> t0 + 300 \<le> t \<longrightarrow>
      snd (snd (fst (get_crypto_data net qc t ids))) = [crypto_request ids])
   \<and> (hc hkey = Some (h, t0) \<and> t < t0 + 3600 \<longrightarrow>
      get_historical_data hnet hc t hkey = ((Inr h, [], []), hc))
   \<and> (hc hkey = Some (h, t0) \<and> t0 + 3600 \<le> t \<longrightarrow>
      snd (snd (fst (get_historical_data hnet hc t hkey)))
        = [historical_request (fst hkey) (snd hkey)])"
  by (simp add: cache_hit cache_expired store_on_return get_crypto_data_def
        get_historical_data_def fetch_and_store_sends crypto_body_sends historical_body_sends)


theorem ttl_window_witness:
  "snd (fetch_and_store (get_crypto_data_body (upstream_ok [btc_quote])) Map.empty 0 [''bitcoin''])
       [''bitcoin''] = Some ([btc_quote], 0)
   \<and> cache_data 300 (get_crypto_data_body upstream_down) cache_btc 100 [''bitcoin'']
       = ((Inr [btc_quote], [], []), cache_btc)
   \<and> cache_data 300 (get_crypto_data_body upstream_down) cache_btc 301 [''bitcoin'']
       = fetch_and_store (get_crypto_data_body upstream_down) cache_btc 301 [''bitcoin'']
   \<and> get_crypto_data upstream_down cache_btc 100 [''bitcoin'']
       = ((Inr [btc_quote], [], []), cache_btc)
   \<and> snd (snd (fst (get_crypto_data upstream_down cache_btc 301 [''bitcoin''])))
       = [crypto_request [''bitcoin'']]
   \<and> get_historical_data upstream_down cache_hist 3599 (''bitcoin'', 30)
       = ((Inr [(''prices'', [(0, 49000), (86400000, 50000)])], [], []), cache_hist)
   \<and> snd (snd (fst (get_historical_data upstream_down cache_hist 3600 (''bitcoin'', 30))))
       = [historical_request ''bitcoin'' 30]"
proof -
  have body: "get_crypto_data_body (upstream_ok [btc_quote]) [''bitcoin'']
                = (Inr [btc_quote], [], [crypto_request [''bitcoin'']])"
    by (simp add: get_crypto_data_body_def upstream_ok_def Let_def)
  have q: "cache_btc [''bitcoin''] = Some ([btc_quote], 0)"
    by (simp add: cache_btc_def)
  have h: "cache_hist (''bitcoin'', 30) = Some ([(''prices'', [(0, 49000), (86400000, 50000)])], 0)"
    by (simp add: cache_hist_def)
  show ?thesis
    using body q h
      ttl_window [where fetchFn = "get_crypto_data_body (upstream_ok [btc_quote])"
        and key = "[''bitcoin'']" and v = "[btc_quote]" and shown = "[]"
        and sent = "[crypto_request [''bitcoin'']]" and c = Map.empty and ?t0.0 = 0
        and t = 100 and ttl = 300 and qc = cache_btc and ids = "[''bitcoin'']"
        and qs = "[btc_quote]" and net = upstream_down and hc = cache_hist
        and hkey = "(''bitcoin'', 30)" and h = "[(''prices'', [(0, 49000), (86400000, 50000)])]"
        and hnet = upstream_down]
      ttl_window [where fetchFn = "get_crypto_data_body upstream_down"
        and key = "[''bitcoin'']" and v = "[btc_quote]" and shown = "[]"
        and sent = "[]" and c = cache_btc and ?t0.0 = 0
        and t = 100 and ttl = 300 and qc = cache_btc and ids = "[''bitcoin'']"
        and qs = "[btc_quote]" and net = upstream_down and hc = cache_hist
        and hkey = "(''bitcoin'', 30)" and h = "[(''prices'', [(0, 49000), (86400000, 50000)])]"
        and hnet = upstream_down]
      ttl_window [where fetchFn = "get_crypto_data_body upstream_down"
        and key = "[''bitcoin'']" and v = "[btc_quote]" and shown = "[]"
        and sent = "[]" and c = cache_btc and ?t0.0 = 0
        and t = 301 and ttl = 300 and qc = cache_btc and ids = "[''bitcoin'']"
        and qs = "[btc_quote]" and net = upstream_down and hc = cache_hist
        and hkey = "(''bitcoin'', 30)" and h = "[(''prices'', [(0, 49000), (86400000, 50000)])]"
        and hnet = upstream_down]
      ttl_window [where fetchFn = "get_crypto_data_body upstream_down"
        and key = "[''bitcoin'']" and v = "[btc_quote]" and shown = "[]"
        and sent = "[]" and c = cache_btc and ?t0.0 = 0
        and t = 3599 and ttl = 300 and qc = cache_btc and ids = "[''bitcoin'']"
        and qs = "[btc_quote]" and net = upstream_down and hc = cache_hist
        and hkey = "(''bitcoin'', 30)" and h = "[(''prices'', [(0, 49000), (86400000, 50000)])]"
        and hnet = upstream_down]
      ttl_window [where fetchFn = "get_crypto_data_body upstream_down"
        and key = "[''bitcoin'']" and v = "[btc_quote]" and shown = "[]"
        and sent = "[]" and c = cache_btc and ?t0.0 = 0
        and t = 3600 and ttl = 300 and qc = cache_btc and ids = "[''bitcoin'']"
        and qs = "[btc_quote]" and net = upstream_down and hc = cache_hist
        and hkey = "(''bitcoin'', 30)" and h = "[(''prices'', [(0, 49000), (86400000, 50000)])]"
        and hnet = upstream_down]
    by simp
qed

lemma failed_status_is_cached:
  "\<lbrakk> net (crypto_request ids) = Inr r; status_code r \<noteq> 200;
     qc ids = None \<or> (\<exists>qs t0. qc ids = Some (qs, t0) \<and> t0 + 300 \<le> t) \<rbrakk>
   \<Longrightarrow> snd (get_crypto_data net qc t ids) = qc(ids \<mapsto> ([], t))"
  by (auto simp: get_crypto_data_def cache_absent cache_expired fetch_and_store_def
        get_crypto_data_body_def Let_def)

lemma raised_failure_not_cached:
  "\<lbrakk> net (crypto_request ids) = Inl e;
     qc ids = None \<or> (\<exists>qs t0. qc ids = Some (qs, t0) \<and> t0 + 300 \<le> t) \<rbrakk>
   \<Longrightarrow> get_crypto_data net qc t ids = ((Inl e, [], [crypto_request ids]), qc)"
  by (auto simp: get_crypto_data_def cache_absent cache_expired fetch_and_store_def
        get_crypto_data_body_def Let_def)

text \<open>
  C2 (as stated): with a valid prior entry and an upstream answering HTTP 500, the lookup
  returns the error. The quote list was cached at time 0; at time 100 the upstream answers
  500 to every request. The lookup returns the cached list, shows no error and sends no
  request: the failure is never observed.
\<close>

theorem failed_refresh_counterexample:
  "get_crypto_data (upstream_status 500) cache_btc 100 [''bitcoin'']
     = ((Inr [btc_quote], [], []), cache_btc)"
  by (simp add: get_crypto_data_def cache_data_def entry_valid_def cache_btc_def)

text \<open>
  C2 (amended). For every cache key holding a still-valid entry, a read made while the
  upstream fails (any status, or unreachable) sends no request and returns the prior
  value, not an error; the cache is unchanged, the prior entry remains in place, and
  every later read within the original TTL returns the prior value again.
\<close>

theorem valid_entry_survives_failure:
  "qc ids = Some (qs, t0) \<and> t < t0 + 300 \<and> t' < t0 + 300 \<longrightarrow>
     get_crypto_data net qc t ids = ((Inr qs, [], []), qc)
     \<and> snd (get_crypto_data net qc t ids) ids = Some (qs, t0)
     \<and> get_crypto_data net' (snd (get_crypto_data net qc t ids)) t' ids = ((Inr qs, [], []), qc)"
  by (simp add: get_crypto_data_def cache_hit)

theorem valid_entry_survives_failure_witness:
  "get_crypto_data (upstream_status 500) cache_btc 100 [''bitcoin'']
     = ((Inr [btc_quote], [], []), cache_btc)
   \<and> snd (get_crypto_data (upstream_status 500) cache_btc 100 [''bitcoin'']) [''bitcoin'']
     = Some ([btc_quote], 0)
   \<and> get_crypto_data upstream_down
        (snd (get_crypto_data (upstream_status 500) cache_btc 100 [''bitcoin''])) 299 [''bitcoin'']
     = ((Inr [btc_quote], [], []), cache_btc)"
proof -
  have q: "cache_btc [''bitcoin''] = Some ([btc_quote], 0)"
    by (simp add: cache_btc_def)
  show ?thesis
    by (rule mp [OF valid_entry_survives_failure [where qc = cache_btc and ids = "[''bitcoin'']"
        and qs = "[btc_quote]" and ?t0.0 = 0 and t = 100 and t' = 299
        and net = "upstream_status 500" and net' = upstream_down]])
      (simp add: q)
qed


section \<open>Refresh controller: results\<close>







text \<open>
  C5. With an empty selection the run sends no request at all and leaves both caches as
  they were: the controller does not start fetching. What the user sees is the warning
  asking for a selection, after which the run stops (\<^verbatim>\<open>st.stop()\<close>); it is a
  warning, not the error element of a failed fetch. (If the refresh button was pressed,
  the run restarts at once, and the restarted run is the one above.)
\<close>

theorem empty_selection_blocks:
  "selected_cryptos w = [] \<longrightarrow>
     requests (run net hnet st_image px_bar t clock qc hc w) = []
     \<and> quotes_cache (run net hnet st_image px_bar t clock qc hc w) = qc
     \<and> hist_cache (run net hnet st_image px_bar t clock qc hc w) = hc
     \<and> (\<not> refresh_pressed w \<longrightarrow>
          outcome (run net hnet st_image px_bar t clock qc hc w) = Stopped
          \<and> elements (run net hnet st_image px_bar t clock qc hc w)
              = [StWarning ''Please select at least one cryptocurrency from the sidebar.''])
     \<and> (refresh_pressed w \<longrightarrow>
          outcome (run net hnet st_image px_bar t clock qc hc w) = Rerun 0
          \<and> elements (run net hnet st_image px_bar t clock qc hc w) = [])"
  by (simp add: run_def)

theorem empty_selection_blocks_witness:
  "requests (run (upstream_ok [btc_quote]) upstream_down image_ok bar_ok 0 ''12:00:00''
       Map.empty Map.empty widgets_none) = []
   \<and> outcome (run (upstream_ok [btc_quote]) upstream_down image_ok bar_ok 0 ''12:00:00''
       Map.empty Map.empty widgets_none) = Stopped
   \<and> elements (run (upstream_ok [btc_quote]) upstream_down image_ok bar_ok 0 ''12:00:00''
       Map.empty Map.empty widgets_none)
       = [StWarning ''Please select at least one cryptocurrency from the sidebar.'']
   \<and> outcome (run (upstream_ok [btc_quote]) upstream_down image_ok bar_ok 0 ''12:00:00''
       Map.empty Map.empty (widgets_none \<lparr> refresh_pressed := True \<rparr>)) = Rerun 0"
  using empty_selection_blocks [of widgets_none "upstream_ok [btc_quote]" upstream_down
          image_ok bar_ok 0 "''12:00:00''" Map.empty Map.empty]
        empty_selection_blocks [of "widgets_none \<lparr> refresh_pressed := True \<rparr>"
          "upstream_ok [btc_quote]" upstream_down
          image_ok bar_ok 0 "''12:00:00''" Map.empty Map.empty]
  by (simp add: widgets_none_def)




subsection \<open>Evaluating the formats\<close>

lemma pad_digits_2: "pad_digits 2 n = [digit_char (n div 10), digit_char n]"
  by (simp add: numeral_2_eq_2 digit_char_def)

lemmas fmt_eval = format_fixed_def round_half_even_def show_nat.simps group3.simps
  digit_char_def Let_def pad_digits_2


section \<open>Degraded display: results\<close>






section \<open>View model: results\<close>












lemma bit_length_le: "n < 2 ^ b \<Longrightarrow> bit_length n \<le> b"
proof (induction n arbitrary: b rule: bit_length.induct)
  case (1 n)
  show ?case
  proof (cases "n = 0")
    case True
    then show ?thesis by (subst bit_length.simps) simp
  next
    case False
    with 1(2) obtain b' where b: "b = Suc b'" by (cases b) auto
    with 1(2) have "n div 2 < 2 ^ b'" by auto
    with 1(1) [OF False] have "bit_length (n div 2) \<le> b'" by simp
    with False b show ?thesis by (subst bit_length.simps) simp
  qed
qed

lemma round53_small: "n < 2 ^ 53 \<Longrightarrow> round53 n = n"
proof -
  assume "n < 2 ^ 53"
  then have "bit_length n \<le> 53" by (rule bit_length_le)
  then have k: "bit_length n - 53 = 0" by simp
  show ?thesis
    unfolding round53_def Let_def k by simp
qed


lemma float_of_int_exact: "\<bar>i\<bar> < 2 ^ 53 \<Longrightarrow> float_of_int i = real_of_int i"
proof -
  assume a: "\<bar>i\<bar> < 2 ^ 53"
  show ?thesis
  proof (cases "i < 0")
    case True
    with a have "nat (- i) < 2 ^ 53" by (simp add: nat_less_iff)
    then have "round53 (nat (- i)) = nat (- i)" by (rule round53_small)
    with True show ?thesis by (simp add: float_of_int_def)
  next
    case False
    with a have "nat i < 2 ^ 53" by (simp add: nat_less_iff)
    then have "round53 (nat i) = nat i" by (rule round53_small)
    with False show ?thesis by (simp add: float_of_int_def)
  qed
qed


lemma pd_column_length: "length (pd_column vs) = length vs"
  by (simp add: pd_column_def)


lemma pd_column_py_float:
  "\<lbrakk> j < length vs; vs ! j \<noteq> CNone \<rbrakk> \<Longrightarrow> py_float (pd_column vs ! j) = py_float (vs ! j)"
  by (cases "vs ! j") (simp_all add: pd_column_def to_float64_def py_float_def)

lemma pd_column_float:
  "\<lbrakk> j < length vs; vs ! j = CFloat f \<rbrakk> \<Longrightarrow> pd_column vs ! j = CFloat f"
  by (simp add: pd_column_def to_float64_def)

lemma apply_col_nth:
  "apply_col f cs = Inr ss
     \<Longrightarrow> length ss = length cs \<and> (\<forall>i < length cs. f (cs ! i) = Inr (ss ! i))"
proof (induction cs arbitrary: ss)
  case Nil
  then show ?case by simp
next
  case (Cons c cs)
  from Cons.prems obtain s rest where
    s: "f c = Inr s" and rest: "apply_col f cs = Inr rest" and ss: "ss = s # rest"
    by (auto split: sum.splits)
  from Cons.IH [OF rest] have
    ih: "length rest = length cs" "\<forall>i < length cs. f (cs ! i) = Inr (rest ! i)"
    by simp_all
  show ?case
  proof (intro conjI allI impI)
    show "length ss = length (c # cs)" using ih ss by simp
  next
    fix i assume "i < length (c # cs)"
    then show "f ((c # cs) ! i) = Inr (ss ! i)"
      using s ih ss by (cases i) simp_all
  qed
qed

lemma build_table_nth:
  assumes t: "build_table qs = Inr rows" and i: "i < length qs"
  shows "length rows = length qs"
    and "r_id (rows ! i) = q_id (qs ! i)"
    and "r_name (rows ! i) = q_name (qs ! i)"
    and "r_symbol (rows ! i) = q_symbol (qs ! i)"
    and "r_change_24h (rows ! i) = pd_column (map q_price_change_percentage_24h qs) ! i"
    and "r_change_7d (rows ! i) = pd_column (map q_price_change_percentage_7d_in_currency qs) ! i"
    and "r_change_30d (rows ! i) = pd_column (map q_price_change_percentage_30d_in_currency qs) ! i"
    and "r_style_24h (rows ! i) = color_percent (r_change_24h (rows ! i))"
    and "r_style_7d (rows ! i) = color_percent (r_change_7d (rows ! i))"
    and "r_style_30d (rows ! i) = color_percent (r_change_30d (rows ! i))"
    and "currency 2 (pd_column (map q_current_price qs) ! i) = Inr (r_price (rows ! i))"
    and "currency 0 (pd_column (map q_market_cap qs) ! i) = Inr (r_market_cap (rows ! i))"
    and "currency 0 (pd_column (map q_total_volume qs) ! i) = Inr (r_volume (rows ! i))"
proof -
  from t obtain prices caps vols where
    p: "apply_col (currency 2) (pd_column (map q_current_price qs)) = Inr prices" and
    c: "apply_col (currency 0) (pd_column (map q_market_cap qs)) = Inr caps" and
    v: "apply_col (currency 0) (pd_column (map q_total_volume qs)) = Inr vols" and
    rows: "rows = map (\<lambda>i. DisplayRow (q_id (qs ! i)) (q_name (qs ! i)) (q_symbol (qs ! i))
              (prices ! i)
              (pd_column (map q_price_change_percentage_24h qs) ! i)
              (pd_column (map q_price_change_percentage_7d_in_currency qs) ! i)
              (pd_column (map q_price_change_percentage_30d_in_currency qs) ! i)
              (caps ! i) (vols ! i)
              (color_percent (pd_column (map q_price_change_percentage_24h qs) ! i))
              (color_percent (pd_column (map q_price_change_percentage_7d_in_currency qs) ! i))
              (color_percent (pd_column (map q_price_change_percentage_30d_in_currency qs) ! i)))
            [0 ..< length qs]"
    by (auto simp: build_table_def Let_def split: sum.splits)
  from rows show "length rows = length qs" by simp
  from rows i show "r_id (rows ! i) = q_id (qs ! i)" by simp
  from rows i show "r_name (rows ! i) = q_name (qs ! i)" by simp
  from rows i show "r_symbol (rows ! i) = q_symbol (qs ! i)" by simp
  from rows i show "r_change_24h (rows ! i) = pd_column (map q_price_change_percentage_24h qs) ! i"
    by simp
  from rows i show "r_change_7d (rows ! i) = pd_column (map q_price_change_percentage_7d_in_currency qs) ! i"
    by simp
  from rows i show "r_change_30d (rows ! i) = pd_column (map q_price_change_percentage_30d_in_currency qs) ! i"
    by simp
  from rows i show "r_style_24h (rows ! i) = color_percent (r_change_24h (rows ! i))" by simp
  from rows i show "r_style_7d (rows ! i) = color_percent (r_change_7d (rows ! i))" by simp
  from rows i show "r_style_30d (rows ! i) = color_percent (r_change_30d (rows ! i))" by simp
  from rows i have "r_price (rows ! i) = prices ! i" by simp
  with apply_col_nth [OF p] i
  show "currency 2 (pd_column (map q_current_price qs) ! i) = Inr (r_price (rows ! i))"
    by (simp add: pd_column_length)
  from rows i have "r_market_cap (rows ! i) = caps ! i" by simp
  with apply_col_nth [OF c] i
  show "currency 0 (pd_column (map q_market_cap qs) ! i) = Inr (r_market_cap (rows ! i))"
    by (simp add: pd_column_length)
  from rows i have "r_volume (rows ! i) = vols ! i" by simp
  with apply_col_nth [OF v] i
  show "currency 0 (pd_column (map q_total_volume qs) ! i) = Inr (r_volume (rows ! i))"
    by (simp add: pd_column_length)
qed

lemma float_1234567890: "float_of_int (sint (1234567890 :: 64 word)) = 1234567890"
  by (simp add: float_of_int_exact)

lemmas table_eval = build_table_def pd_column_def to_float64_def is_int_cell_def currency_def
  format_cell_def py_float_def format_float_def color_percent_def ge_zero_def
  float_of_int_exact fmt_eval

lemma btc_alone:
  "build_table [btc_quote]
     = Inr [DisplayRow ''bitcoin'' ''Bitcoin'' ''btc'' ''$50,000.00'' (CFloat (Finite (5 / 2)))
              (CFloat (Finite (- 1))) CNone ''$1,234,567,890'' ''$987,654''
              ''color: green'' ''color: red'' []]"
  by (simp add: btc_quote_def table_eval)

lemma eth_btc:
  "build_table [eth_quote, btc_quote]
     = Inr [DisplayRow ''ethereum'' ''Ethereum'' ''eth'' ''$3,000.50'' (CFloat (Finite (- 1 / 2)))
              (CFloat (Finite 0)) (CFloat (Finite 12)) ''$360,000,000,000'' ''$15,000,000,000''
              ''color: red'' ''color: green'' ''color: green'',
            DisplayRow ''bitcoin'' ''Bitcoin'' ''btc'' ''$50,000.00'' (CFloat (Finite (5 / 2)))
              (CFloat (Finite (- 1))) (CFloat NaN) ''$1,234,567,890'' ''$987,654''
              ''color: green'' ''color: red'' ''color: red'']"
  by (simp add: btc_quote_def eth_quote_def table_eval)



lemma pd_column_same_format:
  "\<lbrakk> j < length vs; vs ! j \<noteq> CNone \<rbrakk>
   \<Longrightarrow> color_percent (pd_column vs ! j) = color_percent (vs ! j)
       \<and> currency d (pd_column vs ! j) = currency d (vs ! j)"
  by (simp add: color_percent_def currency_def format_cell_def pd_column_py_float)



lemma btc_full_alone:
  "build_table [btc_full]
     = Inr [DisplayRow ''bitcoin'' ''Bitcoin'' ''btc'' ''$50,000.00'' (CFloat (Finite (5 / 2)))
              (CFloat (Finite (- 1))) (CFloat (Finite 8)) ''$1,234,567,890'' ''$987,654''
              ''color: green'' ''color: red'' ''color: green'']"
  by (simp add: btc_full_def btc_quote_def table_eval)

lemma eth_btc_full:
  "build_table [eth_quote, btc_full]
     = Inr [DisplayRow ''ethereum'' ''Ethereum'' ''eth'' ''$3,000.50'' (CFloat (Finite (- 1 / 2)))
              (CFloat (Finite 0)) (CFloat (Finite 12)) ''$360,000,000,000'' ''$15,000,000,000''
              ''color: red'' ''color: green'' ''color: green'',
            DisplayRow ''bitcoin'' ''Bitcoin'' ''btc'' ''$50,000.00'' (CFloat (Finite (5 / 2)))
              (CFloat (Finite (- 1))) (CFloat (Finite 8)) ''$1,234,567,890'' ''$987,654''
              ''color: green'' ''color: red'' ''color: green'']"
  by (simp add: btc_full_def btc_quote_def eth_quote_def table_eval)

text \<open>
  C8 (as stated): building the row of the same quote twice gives the same row. The Bitcoin
  quote has no 30-day change. Alone in the payload, its 30-day cell is \<^verbatim>\<open>None\<close> and
  gets no style. Next to the Ethereum quote, which has one, the column is a float column:
  the cell is NaN and is styled red. The two rows of the same quote differ.
\<close>

theorem same_quote_two_rows_counterexample:
  "build_table [btc_quote]
     = Inr [DisplayRow ''bitcoin'' ''Bitcoin'' ''btc'' ''$50,000.00'' (CFloat (Finite (5 / 2)))
              (CFloat (Finite (- 1))) CNone ''$1,234,567,890'' ''$987,654''
              ''color: green'' ''color: red'' []]
   \<and> build_table [eth_quote, btc_quote]
     = Inr [DisplayRow ''ethereum'' ''Ethereum'' ''eth'' ''$3,000.50'' (CFloat (Finite (- 1 / 2)))
              (CFloat (Finite 0)) (CFloat (Finite 12)) ''$360,000,000,000'' ''$15,000,000,000''
              ''color: red'' ''color: green'' ''color: green'',
            DisplayRow ''bitcoin'' ''Bitcoin'' ''btc'' ''$50,000.00'' (CFloat (Finite (5 / 2)))
              (CFloat (Finite (- 1))) (CFloat NaN) ''$1,234,567,890'' ''$987,654''
              ''color: green'' ''color: red'' ''color: red'']
   \<and> DisplayRow ''bitcoin'' ''Bitcoin'' ''btc'' ''$50,000.00'' (CFloat (Finite (5 / 2)))
              (CFloat (Finite (- 1))) CNone ''$1,234,567,890'' ''$987,654''
              ''color: green'' ''color: red'' []
     \<noteq> DisplayRow ''bitcoin'' ''Bitcoin'' ''btc'' ''$50,000.00'' (CFloat (Finite (5 / 2)))
              (CFloat (Finite (- 1))) (CFloat NaN) ''$1,234,567,890'' ''$987,654''
              ''color: green'' ''color: red'' ''color: red''"
  by (simp add: btc_alone eth_btc)

text \<open>
  C8 (amended). Building the row of the same quote twice gives the same row whenever the
  quote has floats for its three percentage changes and numbers for its price, market cap
  and volume: its row is then the same in every payload it is part of, at any position.
\<close>

theorem complete_quote_same_row:
  "q_price_change_percentage_24h q = CFloat f24
   \<and> q_price_change_percentage_7d_in_currency q = CFloat f7
   \<and> q_price_change_percentage_30d_in_currency q = CFloat f30
   \<and> q_current_price q \<noteq> CNone \<and> q_market_cap q \<noteq> CNone \<and> q_total_volume q \<noteq> CNone
   \<and> build_table qs = Inr rows \<and> build_table qs' = Inr rows'
   \<and> i < length qs \<and> j < length qs' \<and> qs ! i = q \<and> qs' ! j = q
   \<longrightarrow> rows ! i = rows' ! j"
proof (intro impI)
  assume a: "q_price_change_percentage_24h q = CFloat f24
   \<and> q_price_change_percentage_7d_in_currency q = CFloat f7
   \<and> q_price_change_percentage_30d_in_currency q = CFloat f30
   \<and> q_current_price q \<noteq> CNone \<and> q_market_cap q \<noteq> CNone \<and> q_total_volume q \<noteq> CNone
   \<and> build_table qs = Inr rows \<and> build_table qs' = Inr rows'
   \<and> i < length qs \<and> j < length qs' \<and> qs ! i = q \<and> qs' ! j = q"
  have row: "r = DisplayRow (q_id q) (q_name q) (q_symbol q) (r_price r)
               (CFloat f24) (CFloat f7) (CFloat f30) (r_market_cap r) (r_volume r)
               (color_percent (CFloat f24)) (color_percent (CFloat f7))
               (color_percent (CFloat f30))
             \<and> currency 2 (q_current_price q) = Inr (r_price r)
             \<and> currency 0 (q_market_cap q) = Inr (r_market_cap r)
             \<and> currency 0 (q_total_volume q) = Inr (r_volume r)"
    if t: "build_table ps = Inr rs" and k: "k < length ps" and q: "ps ! k = q" and r: "r = rs ! k"
    for ps rs k r
  proof -
    note n = build_table_nth [OF t k]
    have c24: "r_change_24h r = CFloat f24"
      using a k q r n(5) by (simp add: pd_column_float)
    have c7: "r_change_7d r = CFloat f7"
      using a k q r n(6) by (simp add: pd_column_float)
    have c30: "r_change_30d r = CFloat f30"
      using a k q r n(7) by (simp add: pd_column_float)
    have p: "currency 2 (q_current_price q) = Inr (r_price r)"
      using a k q r n(11) pd_column_same_format [of k "map q_current_price ps" 2] by simp
    have c: "currency 0 (q_market_cap q) = Inr (r_market_cap r)"
      using a k q r n(12) pd_column_same_format [of k "map q_market_cap ps" 0] by simp
    have v: "currency 0 (q_total_volume q) = Inr (r_volume r)"
      using a k q r n(13) pd_column_same_format [of k "map q_total_volume ps" 0] by simp
    have "r = DisplayRow (q_id q) (q_name q) (q_symbol q) (r_price r)
               (CFloat f24) (CFloat f7) (CFloat f30) (r_market_cap r) (r_volume r)
               (color_percent (CFloat f24)) (color_percent (CFloat f7))
               (color_percent (CFloat f30))"
      using n(2-4) n(8-10) c24 c7 c30 q r by (intro display_row.expand) simp
    with p c v show ?thesis by simp
  qed
  from a have 1: "build_table qs = Inr rows" "i < length qs" "qs ! i = q"
    and 2: "build_table qs' = Inr rows'" "j < length qs'" "qs' ! j = q"
    by simp_all
  note x = row [OF 1 refl] and y = row [OF 2 refl]
  from x y have "r_price (rows ! i) = r_price (rows' ! j)"
    "r_market_cap (rows ! i) = r_market_cap (rows' ! j)"
    "r_volume (rows ! i) = r_volume (rows' ! j)"
    by simp_all
  with x y show "rows ! i = rows' ! j"
    by metis
qed

theorem complete_quote_same_row_witness:
  "build_table [btc_full]
     = Inr [DisplayRow ''bitcoin'' ''Bitcoin'' ''btc'' ''$50,000.00'' (CFloat (Finite (5 / 2)))
              (CFloat (Finite (- 1))) (CFloat (Finite 8)) ''$1,234,567,890'' ''$987,654''
              ''color: green'' ''color: red'' ''color: green'']
   \<and> build_table [eth_quote, btc_full]
     = Inr [DisplayRow ''ethereum'' ''Ethereum'' ''eth'' ''$3,000.50'' (CFloat (Finite (- 1 / 2)))
              (CFloat (Finite 0)) (CFloat (Finite 12)) ''$360,000,000,000'' ''$15,000,000,000''
              ''color: red'' ''color: green'' ''color: green'',
            DisplayRow ''bitcoin'' ''Bitcoin'' ''btc'' ''$50,000.00'' (CFloat (Finite (5 / 2)))
              (CFloat (Finite (- 1))) (CFloat (Finite 8)) ''$1,234,567,890'' ''$987,654''
              ''color: green'' ''color: red'' ''color: green'']
   \<and> [DisplayRow ''bitcoin'' ''Bitcoin'' ''btc'' ''$50,000.00'' (CFloat (Finite (5 / 2)))
              (CFloat (Finite (- 1))) (CFloat (Finite 8)) ''$1,234,567,890'' ''$987,654''
              ''color: green'' ''color: red'' ''color: green''] ! 0
     = [DisplayRow ''ethereum'' ''Ethereum'' ''eth'' ''$3,000.50'' (CFloat (Finite (- 1 / 2)))
              (CFloat (Finite 0)) (CFloat (Finite 12)) ''$360,000,000,000'' ''$15,000,000,000''
              ''color: red'' ''color: green'' ''color: green'',
        DisplayRow ''bitcoin'' ''Bitcoin'' ''btc'' ''$50,000.00'' (CFloat (Finite (5 / 2)))
              (CFloat (Finite (- 1))) (CFloat (Finite 8)) ''$1,234,567,890'' ''$987,654''
              ''color: green'' ''color: red'' ''color: green''] ! 1"
proof -
  have q: "q_price_change_percentage_24h btc_full = CFloat (Finite (5 / 2))
      \<and> q_price_change_percentage_7d_in_currency btc_full = CFloat (Finite (- 1))
      \<and> q_price_change_percentage_30d_in_currency btc_full = CFloat (Finite 8)
      \<and> q_current_price btc_full \<noteq> CNone \<and> q_market_cap btc_full \<noteq> CNone
      \<and> q_total_volume btc_full \<noteq> CNone"
    by (simp add: btc_full_def btc_quote_def)
  have pos: "(0::nat) < length [btc_full] \<and> (1::nat) < length [eth_quote, btc_full]
      \<and> [btc_full] ! 0 = btc_full \<and> [eth_quote, btc_full] ! 1 = btc_full"
    by simp
  have "[DisplayRow ''bitcoin'' ''Bitcoin'' ''btc'' ''$50,000.00'' (CFloat (Finite (5 / 2)))
              (CFloat (Finite (- 1))) (CFloat (Finite 8)) ''$1,234,567,890'' ''$987,654''
              ''color: green'' ''color: red'' ''color: green''] ! 0
     = [DisplayRow ''ethereum'' ''Ethereum'' ''eth'' ''$3,000.50'' (CFloat (Finite (- 1 / 2)))
              (CFloat (Finite 0)) (CFloat (Finite 12)) ''$360,000,000,000'' ''$15,000,000,000''
              ''color: red'' ''color: green'' ''color: green'',
        DisplayRow ''bitcoin'' ''Bitcoin'' ''btc'' ''$50,000.00'' (CFloat (Finite (5 / 2)))
              (CFloat (Finite (- 1))) (CFloat (Finite 8)) ''$1,234,567,890'' ''$987,654''
              ''color: green'' ''color: red'' ''color: green''] ! 1"
    by (rule mp [OF complete_quote_same_row [where q = btc_full and ?f24.0 = "Finite (5 / 2)"
          and ?f7.0 = "Finite (- 1)" and ?f30.0 = "Finite 8" and qs = "[btc_full]"
          and qs' = "[eth_quote, btc_full]" and i = 0 and j = 1]])
      (simp only: q pos btc_full_alone eth_btc_full simp_thms)
  with btc_full_alone eth_btc_full show ?thesis by blast
qed





end
